theory Spec2Isabelle
  imports Main
begin

section \<open>Refresh token rotation: the two callbacks of the guide\<close>

text \<open>
  The source is the guide on refresh token rotation with its two sample configurations:
  the \<^verbatim>\<open>jwt\<close> callback of the JWT strategy and the \<^verbatim>\<open>session\<close> callback of the
  database strategy. Both are embedded below as functions that pass the outside world
  (outbound requests, console, account table) explicitly and return a thrown exception
  as \<open>Inl\<close>.

  Numbers are modelled as \<open>int\<close>: \<^verbatim>\<open>Date.now()\<close> is a whole number of milliseconds and
  \<^verbatim>\<open>expires_at\<close>, \<^verbatim>\<open>expires_in\<close> are whole seconds, a range in which the doubles of
  the source are exact. A property that is \<^verbatim>\<open>undefined\<close> or \<^verbatim>\<open>null\<close> in the source is
  \<open>None\<close>.
\<close>

subsection \<open>Data\<close>

datatype refresh_error = RefreshAccessTokenError

text \<open>What a callback can throw: \<^verbatim>\<open>new Error(msg)\<close>, a \<^verbatim>\<open>TypeError\<close> of the runtime,
  a rejected \<^verbatim>\<open>fetch\<close>/\<^verbatim>\<open>response.json()\<close>, or the body of a non-ok response
  (\<^verbatim>\<open>throw responseTokens\<close>).\<close>

datatype exception =
    Error string
  | TypeError string
  | FetchRejected
  | ResponsePayload string

record User =
  user_id :: "string option"
  user_name :: "string option"
  user_email :: "string option"
  user_image :: "string option"

record Profile =
  profile_name :: "string option"
  profile_email :: "string option"

text \<open>The three credential properties shared by the JWT and by an account. Of the other
  properties of a JWT, those the callback reads or writes are kept: \<^verbatim>\<open>sub\<close>,
  \<^verbatim>\<open>picture\<close>, \<^verbatim>\<open>user\<close> and \<^verbatim>\<open>error\<close>.\<close>

record TokenSet =
  access_token :: "string option"
  expires_at :: "int option"
  refresh_token :: "string option"

record JWT = TokenSet +
  sub :: "string option"
  picture :: "string option"
  user :: "User option"
  error :: "refresh_error option"

record Account = TokenSet +
  userId :: string
  provider :: string
  providerAccountId :: string

record Session =
  session_user :: "User option"
  session_expires :: string
  session_error :: "refresh_error option"

text \<open>The JSON of a successful token response: \<^verbatim>\<open>access_token\<close>, \<^verbatim>\<open>expires_in\<close>
  (seconds) and an optional rotated \<^verbatim>\<open>refresh_token\<close>.\<close>

record TokenResponse =
  response_access_token :: string
  expires_in :: int
  response_refresh_token :: "string option"

text \<open>What \<^verbatim>\<open>fetch\<close> followed by \<^verbatim>\<open>response.json()\<close> can end in: a rejected promise,
  a response with \<^verbatim>\<open>response.ok\<close> false and its body, or an ok response.\<close>

datatype exchange =
    TransportError
  | NonSuccess string
  | Success TokenResponse

record Request =
  url :: string
  http_method :: string
  headers :: "(string \<times> string) list"
  body :: "(string \<times> string) list"

record process_env =
  AUTH_GOOGLE_ID :: string
  AUTH_GOOGLE_SECRET :: string

text \<open>The world outside a callback: the requests sent so far (oldest first), the lines
  written by \<^verbatim>\<open>console.error\<close>, and the \<^verbatim>\<open>account\<close> table behind \<^verbatim>\<open>prisma\<close>.\<close>

record world =
  requests :: "Request list"
  console :: "(string \<times> exception) list"
  accounts :: "Account list"

subsection \<open>JavaScript operators used by the callbacks\<close>

text \<open>\<^verbatim>\<open>!!s\<close> for a string property: \<^verbatim>\<open>undefined\<close> and the empty string are falsy.\<close>

fun truthy :: "string option \<Rightarrow> bool" where
  "truthy None = False"
| "truthy (Some s) = (s \<noteq> [])"

text \<open>\<^verbatim>\<open>a ?? b\<close>: \<open>b\<close> only when \<open>a\<close> is \<^verbatim>\<open>undefined\<close> or \<^verbatim>\<open>null\<close>.\<close>

fun nullish :: "'a option \<Rightarrow> 'a option \<Rightarrow> 'a option" where
  "nullish (Some a) b = Some a"
| "nullish None b = b"

text \<open>\<^verbatim>\<open>Date.now() < token.expires_at * 1000\<close>: a missing \<^verbatim>\<open>expires_at\<close> multiplies to
  \<^verbatim>\<open>NaN\<close>, and every comparison with \<^verbatim>\<open>NaN\<close> is false.\<close>

fun now_before :: "int \<Rightarrow> int option \<Rightarrow> bool" where
  "now_before now None = False"
| "now_before now (Some e) = (now < e * 1000)"

text \<open>\<^verbatim>\<open>googleAccount.expires_at * 1000 < Date.now()\<close>: a \<^verbatim>\<open>null\<close> column multiplies
  to \<open>0\<close>.\<close>

fun expired_before :: "int option \<Rightarrow> int \<Rightarrow> bool" where
  "expired_before None now = (0 < now)"
| "expired_before (Some e) now = (e * 1000 < now)"

text \<open>\<^verbatim>\<open>URLSearchParams\<close> turns each value into a string; \<^verbatim>\<open>null\<close> becomes
  \<^verbatim>\<open>"null"\<close>.\<close>

fun param_string :: "string option \<Rightarrow> string" where
  "param_string None = ''null''"
| "param_string (Some s) = s"

text \<open>\<^verbatim>\<open>Math.floor(Date.now() / 1000 + expires_in)\<close> for whole \<^verbatim>\<open>expires_in\<close>.\<close>

definition new_expires_at :: "int \<Rightarrow> int \<Rightarrow> int" where
  "new_expires_at now e = now div 1000 + e"

text \<open>The request both callbacks send to the token endpoint.\<close>

definition token_request :: "process_env \<Rightarrow> string \<Rightarrow> Request" where
  "token_request env rt =
     \<lparr>url = ''https://oauth2.googleapis.com/token'',
      http_method = ''POST'',
      headers = [(''Content-Type'', ''application/x-www-form-urlencoded'')],
      body = [(''client_id'', AUTH_GOOGLE_ID env),
              (''client_secret'', AUTH_GOOGLE_SECRET env),
              (''grant_type'', ''refresh_token''),
              (''refresh_token'', rt)]\<rparr>"

text \<open>What the \<^verbatim>\<open>catch\<close> block receives for an exchange that did not succeed.\<close>

fun caught :: "exchange \<Rightarrow> exception" where
  "caught (NonSuccess p) = ResponsePayload p"
| "caught _ = FetchRejected"

definition log_error :: "exception \<Rightarrow> world \<Rightarrow> world" where
  "log_error e w = w\<lparr>console := console w @ [(''Error refreshing access token'', e)]\<rparr>"

definition send :: "Request \<Rightarrow> world \<Rightarrow> world" where
  "send r w = w\<lparr>requests := requests w @ [r]\<rparr>"

subsection \<open>JWT strategy: the \<^verbatim>\<open>jwt\<close> callback\<close>

text \<open>
  \<open>fetch\<close> is the provider as seen through \<^verbatim>\<open>fetch\<close>; \<open>now\<close> is the reading of
  \<^verbatim>\<open>Date.now()\<close> in the validity test and \<open>now'\<close> the reading taken after the
  response has arrived, when the new expiry is computed.
\<close>

definition jwt ::
  "process_env \<Rightarrow> (Request \<Rightarrow> exchange) \<Rightarrow> int \<Rightarrow> int \<Rightarrow> world
     \<Rightarrow> JWT \<Rightarrow> Account option \<Rightarrow> Profile option \<Rightarrow> (exception + JWT) \<times> world" where
  "jwt env fetch now now' w token account profile =
     (case account of
        Some a \<Rightarrow>
          (Inr \<lparr>access_token = access_token a,
                expires_at = expires_at a,
                refresh_token = refresh_token a,
                sub = None,
                picture = None,
                user = Some \<lparr>user_id = sub token,
                             user_name = (case profile of None \<Rightarrow> None | Some p \<Rightarrow> profile_name p),
                             user_email = (case profile of None \<Rightarrow> None | Some p \<Rightarrow> profile_email p),
                             user_image = picture token\<rparr>,
                error = None\<rparr>, w)
      | None \<Rightarrow>
          if now_before now (expires_at token) then (Inr token, w)
          else if \<not> truthy (refresh_token token) then (Inl (Error ''Missing refresh token''), w)
          else
            (let r = token_request env (param_string (refresh_token token));
                 w1 = send r w
             in case fetch r of
                  Success t \<Rightarrow>
                    (Inr (token\<lparr>access_token := Some (response_access_token t),
                                expires_at := Some (new_expires_at now' (expires_in t)),
                                refresh_token :=
                                  nullish (response_refresh_token t) (refresh_token token)\<rparr>), w1)
                | failure \<Rightarrow>
                    (Inr (token\<lparr>error := Some RefreshAccessTokenError\<rparr>),
                     log_error (caught failure) w1)))"

subsection \<open>Database strategy: the \<^verbatim>\<open>session\<close> callback\<close>

text \<open>\<^verbatim>\<open>prisma.account.findMany({ where: { userId, provider: "google" } })\<close>.\<close>

definition findMany :: "string \<Rightarrow> Account list \<Rightarrow> Account list" where
  "findMany uid rows = filter (\<lambda>a. userId a = uid \<and> provider a = ''google'') rows"

text \<open>\<^verbatim>\<open>prisma.account.update\<close> addressed by the unique key
  \<^verbatim>\<open>provider_providerAccountId\<close>: the row with that key gets the three new values.
  The callback passes the key of the row it has just read, whose provider is
  \<^verbatim>\<open>"google"\<close>, so the update always finds its row and the rejection of Prisma
  for a missing row does not arise.\<close>

definition update :: "string \<Rightarrow> TokenResponse \<Rightarrow> int \<Rightarrow> string option \<Rightarrow> Account list \<Rightarrow> Account list" where
  "update pid t now' old_rt rows =
     map (\<lambda>a. if provider a = ''google'' \<and> providerAccountId a = pid
              then a\<lparr>access_token := Some (response_access_token t),
                     expires_at := Some (new_expires_at now' (expires_in t)),
                     refresh_token := nullish (response_refresh_token t) old_rt\<rparr>
              else a) rows"

definition session ::
  "process_env \<Rightarrow> (Request \<Rightarrow> exchange) \<Rightarrow> int \<Rightarrow> int \<Rightarrow> world
     \<Rightarrow> Session \<Rightarrow> string \<Rightarrow> (exception + Session) \<times> world" where
  "session env fetch now now' w sess uid =
     (case findMany uid (accounts w) of
        [] \<Rightarrow> (Inl (TypeError ''Cannot read properties of undefined (reading expires_at)''), w)
      | googleAccount # _ \<Rightarrow>
          if expired_before (expires_at googleAccount) now then
            (let r = token_request env (param_string (refresh_token googleAccount));
                 w1 = send r w
             in case fetch r of
                  Success t \<Rightarrow>
                    (Inr sess,
                     w1\<lparr>accounts := update (providerAccountId googleAccount) t now'
                                       (refresh_token googleAccount) (accounts w1)\<rparr>)
                | failure \<Rightarrow>
                    (Inr (sess\<lparr>session_error := Some RefreshAccessTokenError\<rparr>),
                     log_error (caught failure) w1))
          else (Inr sess, w))"

subsection \<open>Reading a result\<close>

text \<open>The value a callback returns, when it returns rather than throws.\<close>

definition returned :: "(exception + 'a) \<times> world \<Rightarrow> 'a option" where
  "returned r = (case fst r of Inl _ \<Rightarrow> None | Inr x \<Rightarrow> Some x)"

definition thrown :: "(exception + 'a) \<times> world \<Rightarrow> exception option" where
  "thrown r = (case fst r of Inl e \<Rightarrow> Some e | Inr _ \<Rightarrow> None)"

text \<open>The requests a callback has added to those sent before it ran.\<close>

definition calls :: "world \<Rightarrow> (exception + 'a) \<times> world \<Rightarrow> nat" where
  "calls w r = length (requests (snd r)) - length (requests w)"

fun succeeded :: "exchange \<Rightarrow> bool" where
  "succeeded (Success _) = True"
| "succeeded _ = False"

subsection \<open>Sample data: the scenarios of the guide\<close>

definition example_env :: process_env where
  "example_env = \<lparr>AUTH_GOOGLE_ID = ''client'', AUTH_GOOGLE_SECRET = ''secret''\<rparr>"

definition empty_world :: world where
  "empty_world = \<lparr>requests = [], console = [], accounts = []\<rparr>"

text \<open>The tuple \<^verbatim>\<open>{access = "A1", expiry = 100}\<close> as a JWT, with a given refresh token
  and error flag.\<close>

definition token_A1 :: "string option \<Rightarrow> refresh_error option \<Rightarrow> JWT" where
  "token_A1 rt err =
     \<lparr>access_token = Some ''A1'', expires_at = Some 100, refresh_token = rt,
      sub = Some ''u1'', picture = None, user = None, error = err\<rparr>"

text \<open>The JWT after a refresh at \<^verbatim>\<open>now = 150\<close> that followed a failed one.\<close>

definition token_A2 :: "refresh_error option \<Rightarrow> JWT" where
  "token_A2 err =
     \<lparr>access_token = Some ''A2'', expires_at = Some 3750, refresh_token = Some ''R1'',
      sub = Some ''u1'', picture = None, user = None, error = err\<rparr>"

text \<open>The same tuple as a row of the account table.\<close>

definition account_A1 :: "string option \<Rightarrow> Account" where
  "account_A1 rt =
     \<lparr>access_token = Some ''A1'', expires_at = Some 100, refresh_token = rt,
      userId = ''u1'', provider = ''google'', providerAccountId = ''g1''\<rparr>"

definition account_A2 :: Account where
  "account_A2 =
     \<lparr>access_token = Some ''A2'', expires_at = Some 3750, refresh_token = Some ''R1'',
      userId = ''u1'', provider = ''google'', providerAccountId = ''g1''\<rparr>"

definition db_world :: "string option \<Rightarrow> world" where
  "db_world rt = \<lparr>requests = [], console = [], accounts = [account_A1 rt]\<rparr>"

definition session0 :: Session where
  "session0 = \<lparr>session_user = None, session_expires = ''2030-01-01'', session_error = None\<rparr>"

text \<open>A provider that answers \<^verbatim>\<open>{access_token: "A2", expires_in: 3600}\<close>, and one
  that answers HTTP 400.\<close>

definition provider_grants :: "Request \<Rightarrow> exchange" where
  "provider_grants r =
     Success \<lparr>response_access_token = ''A2'', expires_in = 3600, response_refresh_token = None\<rparr>"

definition provider_rejects :: "Request \<Rightarrow> exchange" where
  "provider_rejects r = NonSuccess ''invalid_grant''"

text \<open>A provider that also rotates the refresh token to \<^verbatim>\<open>"R2"\<close>.\<close>

definition provider_rotates :: "Request \<Rightarrow> exchange" where
  "provider_rotates r =
     Success \<lparr>response_access_token = ''A2'', expires_in = 3600,
              response_refresh_token = Some ''R2''\<rparr>"

section \<open>Properties\<close>

subsection \<open>The paths of the \<^verbatim>\<open>jwt\<close> callback\<close>

lemma jwt_bootstrap:
  "jwt env fetch now now' w token (Some a) profile =
     (Inr \<lparr>access_token = access_token a, expires_at = expires_at a,
           refresh_token = refresh_token a, sub = None, picture = None,
           user = Some \<lparr>user_id = sub token,
                        user_name = (case profile of None \<Rightarrow> None | Some p \<Rightarrow> profile_name p),
                        user_email = (case profile of None \<Rightarrow> None | Some p \<Rightarrow> profile_email p),
                        user_image = picture token\<rparr>,
           error = None\<rparr>, w)"
  by (simp add: jwt_def)

lemma jwt_reuse:
  "now_before now (expires_at token) \<Longrightarrow>
   jwt env fetch now now' w token None profile = (Inr token, w)"
  by (simp add: jwt_def)

lemma jwt_missing:
  "\<not> now_before now (expires_at token) \<Longrightarrow> \<not> truthy (refresh_token token) \<Longrightarrow>
   jwt env fetch now now' w token None profile = (Inl (Error ''Missing refresh token''), w)"
  by (simp add: jwt_def)

lemma jwt_success:
  "\<not> now_before now (expires_at token) \<Longrightarrow> truthy (refresh_token token) \<Longrightarrow>
   fetch (token_request env (param_string (refresh_token token))) = Success t \<Longrightarrow>
   jwt env fetch now now' w token None profile =
     (Inr (token\<lparr>access_token := Some (response_access_token t),
                 expires_at := Some (now' div 1000 + expires_in t),
                 refresh_token := nullish (response_refresh_token t) (refresh_token token)\<rparr>),
      send (token_request env (param_string (refresh_token token))) w)"
  by (simp add: jwt_def new_expires_at_def)

lemma jwt_failure:
  "\<not> now_before now (expires_at token) \<Longrightarrow> truthy (refresh_token token) \<Longrightarrow>
   \<not> succeeded (fetch (token_request env (param_string (refresh_token token)))) \<Longrightarrow>
   jwt env fetch now now' w token None profile =
     (Inr (token\<lparr>error := Some RefreshAccessTokenError\<rparr>),
      log_error (caught (fetch (token_request env (param_string (refresh_token token)))))
        (send (token_request env (param_string (refresh_token token))) w))"
  by (cases "fetch (token_request env (param_string (refresh_token token)))")
     (simp_all add: jwt_def)

subsection \<open>The paths of the \<^verbatim>\<open>session\<close> callback\<close>

lemma findMany_Cons:
  assumes "findMany uid rows = ga # rest"
  shows "userId ga = uid \<and> provider ga = ''google''"
proof -
  have "ga \<in> set (findMany uid rows)"
    by (simp add: assms)
  then show ?thesis
    by (simp add: findMany_def)
qed

lemma findMany_update:
  "findMany uid (update pid t n rt rows) = update pid t n rt (findMany uid rows)"
  by (induction rows) (simp_all add: findMany_def update_def)

lemma session_no_row:
  "findMany uid (accounts w) = [] \<Longrightarrow>
   session env fetch now now' w sess uid =
     (Inl (TypeError ''Cannot read properties of undefined (reading expires_at)''), w)"
  by (simp add: session_def)

lemma session_reuse:
  "findMany uid (accounts w) = ga # rest \<Longrightarrow> \<not> expired_before (expires_at ga) now \<Longrightarrow>
   session env fetch now now' w sess uid = (Inr sess, w)"
  by (simp add: session_def)

lemma session_success:
  "findMany uid (accounts w) = ga # rest \<Longrightarrow> expired_before (expires_at ga) now \<Longrightarrow>
   fetch (token_request env (param_string (refresh_token ga))) = Success t \<Longrightarrow>
   session env fetch now now' w sess uid =
     (Inr sess,
      (send (token_request env (param_string (refresh_token ga))) w)
        \<lparr>accounts := update (providerAccountId ga) t now' (refresh_token ga) (accounts w)\<rparr>)"
  by (simp add: session_def send_def)

lemma session_failure:
  "findMany uid (accounts w) = ga # rest \<Longrightarrow> expired_before (expires_at ga) now \<Longrightarrow>
   \<not> succeeded (fetch (token_request env (param_string (refresh_token ga)))) \<Longrightarrow>
   session env fetch now now' w sess uid =
     (Inr (sess\<lparr>session_error := Some RefreshAccessTokenError\<rparr>),
      log_error (caught (fetch (token_request env (param_string (refresh_token ga)))))
        (send (token_request env (param_string (refresh_token ga))) w))"
  by (cases "fetch (token_request env (param_string (refresh_token ga)))")
     (simp_all add: session_def)

lemma session_reloads_refreshed_row:
  assumes "findMany uid (accounts w) = ga # rest"
    and "expired_before (expires_at ga) now"
    and "fetch (token_request env (param_string (refresh_token ga))) = Success t"
  shows "findMany uid (accounts (snd (session env fetch now now' w sess uid))) =
           ga\<lparr>access_token := Some (response_access_token t),
              expires_at := Some (now' div 1000 + expires_in t),
              refresh_token := nullish (response_refresh_token t) (refresh_token ga)\<rparr>
           # update (providerAccountId ga) t now' (refresh_token ga) rest"
proof -
  have key: "provider ga = ''google''"
    using findMany_Cons [OF assms(1)] by simp
  have "findMany uid (accounts (snd (session env fetch now now' w sess uid))) =
          update (providerAccountId ga) t now' (refresh_token ga) (ga # rest)"
    by (simp add: session_success [where fetch = fetch, OF assms] findMany_update assms(1))
  also have "\<dots> = ga\<lparr>access_token := Some (response_access_token t),
              expires_at := Some (now' div 1000 + expires_in t),
              refresh_token := nullish (response_refresh_token t) (refresh_token ga)\<rparr>
           # update (providerAccountId ga) t now' (refresh_token ga) rest"
    by (simp add: update_def key new_expires_at_def)
  finally show ?thesis .
qed

subsection \<open>Outbound calls\<close>

text \<open>The \<^verbatim>\<open>jwt\<close> callback sends one request on the refresh path and none on any
  other; the \<^verbatim>\<open>session\<close> callback sends one whenever the row it read is expired and
  none otherwise. Neither sends a second one after a failure.\<close>

lemma jwt_calls:
  "calls w (jwt env fetch now now' w token account profile) =
     (if account = None \<and> \<not> now_before now (expires_at token) \<and> truthy (refresh_token token)
      then 1 else 0)"
  by (simp add: jwt_def calls_def send_def log_error_def Let_def
      split: option.splits exchange.splits)

lemma session_calls:
  "calls w (session env fetch now now' w sess uid) =
     (case findMany uid (accounts w) of
        [] \<Rightarrow> 0
      | ga # _ \<Rightarrow> if expired_before (expires_at ga) now then 1 else 0)"
  by (simp add: session_def calls_def send_def log_error_def Let_def
      split: list.splits exchange.splits)

lemma jwt_calls_at_most_one: "calls w (jwt env fetch now now' w token account profile) \<le> 1"
  by (simp add: jwt_calls)

lemma session_calls_at_most_one: "calls w (session env fetch now now' w sess uid) \<le> 1"
  by (simp add: session_calls split: list.splits)

subsection \<open>Expired access token, no refresh token\<close>

text \<open>
  Claim C1, as amended. When the access token has expired (\<open>now\<close> is not before the
  expiry) and the refresh token is missing or empty, the \<^verbatim>\<open>jwt\<close> callback sends no
  request and throws \<^verbatim>\<open>Error("Missing refresh token")\<close>: no token is returned, so no
  token with an error flag either.
\<close>

theorem C1_jwt_missing_refresh_token_throws:
  assumes "\<not> now_before now (expires_at token)"
    and "\<not> truthy (refresh_token token)"
  shows "thrown (jwt env fetch now now' w token None profile)
           = Some (Error ''Missing refresh token'')
         \<and> returned (jwt env fetch now now' w token None profile) = None
         \<and> snd (jwt env fetch now now' w token None profile) = w"
  by (simp add: jwt_missing [OF assms] thrown_def returned_def)

text \<open>The scenario \<^verbatim>\<open>{access = "A1", expiry = 100, refresh = absent}\<close> at
  \<^verbatim>\<open>now = 150\<close> seconds.\<close>

theorem C1_witness:
  "\<not> now_before 150000 (expires_at (token_A1 None None))
   \<and> \<not> truthy (refresh_token (token_A1 None None))
   \<and> thrown (jwt example_env provider_rejects 150000 150000 empty_world
               (token_A1 None None) None None) = Some (Error ''Missing refresh token'')
   \<and> returned (jwt example_env provider_rejects 150000 150000 empty_world
               (token_A1 None None) None None) = None
   \<and> snd (jwt example_env provider_rejects 150000 150000 empty_world
               (token_A1 None None) None None) = empty_world"
proof -
  have expired: "\<not> now_before 150000 (expires_at (token_A1 None None))"
    by (simp add: token_A1_def)
  have missing: "\<not> truthy (refresh_token (token_A1 None None))"
    by (simp add: token_A1_def)
  show ?thesis
    using expired missing
      C1_jwt_missing_refresh_token_throws [OF expired missing, where env = example_env
        and fetch = provider_rejects and now' = 150000 and w = empty_world and profile = None]
    by simp
qed

text \<open>The claim as written says that a token flagged with the error is returned and that
  nothing is thrown; in that scenario the callback throws and returns nothing.\<close>

theorem C1_counterexample:
  "jwt example_env provider_rejects 150000 150000 empty_world (token_A1 None None) None None
     = (Inl (Error ''Missing refresh token''), empty_world)"
  by (simp add: jwt_def token_A1_def)

subsection \<open>Successful refresh\<close>

text \<open>
  Claim C2, as amended. JWT strategy: when the access token has expired, the refresh token
  is non-empty and the exchange succeeds with \<^verbatim>\<open>expires_in = E\<close>, the returned token
  has the new access token and expiry \<open>now' div 1000 + E\<close> (the clock in whole seconds
  when the response is handled, plus \<open>E\<close>), and every other property of the input token,
  the error flag included, is kept: the status is ok only if it was ok before.
  Database strategy: when the stored expiry lies strictly before now and the exchange
  succeeds, the session is returned as it came in and the row read next time carries the
  new access token and that expiry.
\<close>

theorem C2_refresh_success:
  "(\<not> now_before now (expires_at token) \<and> truthy (refresh_token token)
      \<and> fetch (token_request env (param_string (refresh_token token))) = Success t
    \<longrightarrow> returned (jwt env fetch now now' w token None profile)
          = Some (token\<lparr>access_token := Some (response_access_token t),
                        expires_at := Some (now' div 1000 + expires_in t),
                        refresh_token :=
                          nullish (response_refresh_token t) (refresh_token token)\<rparr>)
        \<and> map_option error (returned (jwt env fetch now now' w token None profile))
          = Some (error token))
   \<and> (findMany uid (accounts w) = ga # rest \<and> expired_before (expires_at ga) now
      \<and> fetch (token_request env (param_string (refresh_token ga))) = Success t
    \<longrightarrow> returned (session env fetch now now' w sess uid) = Some sess
        \<and> findMany uid (accounts (snd (session env fetch now now' w sess uid)))
          = ga\<lparr>access_token := Some (response_access_token t),
               expires_at := Some (now' div 1000 + expires_in t),
               refresh_token := nullish (response_refresh_token t) (refresh_token ga)\<rparr>
            # update (providerAccountId ga) t now' (refresh_token ga) rest)"
proof (intro conjI impI)
  assume h: "\<not> now_before now (expires_at token) \<and> truthy (refresh_token token)
      \<and> fetch (token_request env (param_string (refresh_token token))) = Success t"
  then have r: "jwt env fetch now now' w token None profile =
     (Inr (token\<lparr>access_token := Some (response_access_token t),
                 expires_at := Some (now' div 1000 + expires_in t),
                 refresh_token := nullish (response_refresh_token t) (refresh_token token)\<rparr>),
      send (token_request env (param_string (refresh_token token))) w)"
    by (simp add: jwt_success)
  show "returned (jwt env fetch now now' w token None profile)
          = Some (token\<lparr>access_token := Some (response_access_token t),
                        expires_at := Some (now' div 1000 + expires_in t),
                        refresh_token :=
                          nullish (response_refresh_token t) (refresh_token token)\<rparr>)"
    by (simp add: r returned_def)
  show "map_option error (returned (jwt env fetch now now' w token None profile))
          = Some (error token)"
    by (simp add: r returned_def)
next
  assume h: "findMany uid (accounts w) = ga # rest \<and> expired_before (expires_at ga) now
      \<and> fetch (token_request env (param_string (refresh_token ga))) = Success t"
  show "returned (session env fetch now now' w sess uid) = Some sess"
    using h by (simp add: returned_def session_success [where fetch = fetch and ga = ga])
  show "findMany uid (accounts (snd (session env fetch now now' w sess uid)))
          = ga\<lparr>access_token := Some (response_access_token t),
               expires_at := Some (now' div 1000 + expires_in t),
               refresh_token := nullish (response_refresh_token t) (refresh_token ga)\<rparr>
            # update (providerAccountId ga) t now' (refresh_token ga) rest"
    using h by (simp add: session_reloads_refreshed_row [where fetch = fetch])
qed

text \<open>The scenario \<^verbatim>\<open>{access = "A1", expiry = 100, refresh = "R1"}\<close> at
  \<^verbatim>\<open>now = 150\<close> with the answer \<^verbatim>\<open>{access_token: "A2", expires_in: 3600}\<close>, in
  both strategies.\<close>

theorem C2_witness:
  "(\<not> now_before 150000 (expires_at (token_A1 (Some ''R1'') None))
      \<and> truthy (refresh_token (token_A1 (Some ''R1'') None))
      \<and> provider_grants (token_request example_env
            (param_string (refresh_token (token_A1 (Some ''R1'') None))))
          = Success \<lparr>response_access_token = ''A2'', expires_in = 3600,
                     response_refresh_token = None\<rparr>)
   \<and> returned (jwt example_env provider_grants 150000 150000 (db_world (Some ''R1''))
                 (token_A1 (Some ''R1'') None) None None) = Some (token_A2 None)
   \<and> (findMany ''u1'' (accounts (db_world (Some ''R1''))) = [account_A1 (Some ''R1'')]
      \<and> expired_before (expires_at (account_A1 (Some ''R1''))) 150000)
   \<and> returned (session example_env provider_grants 150000 150000 (db_world (Some ''R1''))
                 session0 ''u1'') = Some session0
   \<and> findMany ''u1'' (accounts (snd (session example_env provider_grants 150000 150000
                 (db_world (Some ''R1'')) session0 ''u1''))) = [account_A2]"
proof -
  let ?t = "\<lparr>response_access_token = ''A2'', expires_in = 3600,
             response_refresh_token = None\<rparr>"
  have j: "\<not> now_before 150000 (expires_at (token_A1 (Some ''R1'') None))
      \<and> truthy (refresh_token (token_A1 (Some ''R1'') None))
      \<and> provider_grants (token_request example_env
            (param_string (refresh_token (token_A1 (Some ''R1'') None)))) = Success ?t"
    by (simp add: token_A1_def provider_grants_def)
  have d: "findMany ''u1'' (accounts (db_world (Some ''R1''))) = [account_A1 (Some ''R1'')]
      \<and> expired_before (expires_at (account_A1 (Some ''R1''))) 150000
      \<and> provider_grants (token_request example_env
            (param_string (refresh_token (account_A1 (Some ''R1''))))) = Success ?t"
    by (simp add: findMany_def db_world_def account_A1_def provider_grants_def)
  show ?thesis
    using j d
      C2_refresh_success [where now = 150000 and now' = 150000 and env = example_env
        and fetch = provider_grants and t = "?t" and token = "token_A1 (Some ''R1'') None"
        and w = "db_world (Some ''R1'')" and profile = None and uid = "''u1''"
        and ga = "account_A1 (Some ''R1'')" and rest = "[]" and sess = session0]
    by (simp add: token_A1_def token_A2_def account_A1_def account_A2_def update_def)
qed

text \<open>The claim as written includes a token that carries the error flag of an earlier
  failed refresh, and promises status ok after the successful one. The first evaluation
  below fails and sets the flag; the second succeeds on its result and the flag is still
  there.\<close>

theorem C2_counterexample:
  "returned (jwt example_env provider_rejects 150000 150000 empty_world
              (token_A1 (Some ''R1'') None) None None)
     = Some (token_A1 (Some ''R1'') (Some RefreshAccessTokenError))
   \<and> returned (jwt example_env provider_grants 150000 150000 empty_world
              (token_A1 (Some ''R1'') (Some RefreshAccessTokenError)) None None)
     = Some (token_A2 (Some RefreshAccessTokenError))
   \<and> error (token_A2 (Some RefreshAccessTokenError)) = Some RefreshAccessTokenError"
  by (simp add: jwt_def returned_def token_A1_def token_A2_def provider_grants_def
      provider_rejects_def new_expires_at_def)


subsection \<open>Reuse\<close>

text \<open>
  Claim C3, as amended. With an access token that has not expired (\<open>now\<close> before the
  expiry) and no sign-in in progress, the \<^verbatim>\<open>jwt\<close> callback returns the input token
  unchanged, with the status it came in with, and the \<^verbatim>\<open>session\<close> callback of the
  database strategy returns the input session unchanged; neither sends a request nor
  changes anything else.
\<close>

theorem C3_reuse_unchanged:
  "(now_before now (expires_at token)
    \<longrightarrow> jwt env fetch now now' w token None profile = (Inr token, w)
        \<and> calls w (jwt env fetch now now' w token None profile) = 0)
   \<and> (findMany uid (accounts w) = ga # rest \<and> expires_at ga = Some e \<and> now < e * 1000
    \<longrightarrow> session env fetch now now' w sess uid = (Inr sess, w)
        \<and> calls w (session env fetch now now' w sess uid) = 0)"
proof (intro conjI impI)
  assume "now_before now (expires_at token)"
  then show "jwt env fetch now now' w token None profile = (Inr token, w)"
    by (rule jwt_reuse)
  then show "calls w (jwt env fetch now now' w token None profile) = 0"
    by (simp add: calls_def)
next
  assume h: "findMany uid (accounts w) = ga # rest \<and> expires_at ga = Some e \<and> now < e * 1000"
  then have "\<not> expired_before (expires_at ga) now"
    by simp
  with h show "session env fetch now now' w sess uid = (Inr sess, w)"
    by (simp add: session_reuse)
  then show "calls w (session env fetch now now' w sess uid) = 0"
    by (simp add: calls_def)
qed

text \<open>The scenario \<^verbatim>\<open>{access = "A1", expiry = 100, refresh = "R1"}\<close> at
  \<^verbatim>\<open>now = 50\<close>, in both strategies.\<close>

theorem C3_witness:
  "now_before 50000 (expires_at (token_A1 (Some ''R1'') None))
   \<and> jwt example_env provider_grants 50000 50000 (db_world (Some ''R1''))
        (token_A1 (Some ''R1'') None) None None
      = (Inr (token_A1 (Some ''R1'') None), db_world (Some ''R1''))
   \<and> (findMany ''u1'' (accounts (db_world (Some ''R1''))) = [account_A1 (Some ''R1'')]
      \<and> expires_at (account_A1 (Some ''R1'')) = Some 100 \<and> (50000::int) < 100 * 1000)
   \<and> session example_env provider_grants 50000 50000 (db_world (Some ''R1'')) session0 ''u1''
      = (Inr session0, db_world (Some ''R1''))"
proof -
  have j: "now_before 50000 (expires_at (token_A1 (Some ''R1'') None))"
    by (simp add: token_A1_def)
  have d: "findMany ''u1'' (accounts (db_world (Some ''R1''))) = [account_A1 (Some ''R1'')]
      \<and> expires_at (account_A1 (Some ''R1'')) = Some 100 \<and> (50000::int) < 100 * 1000"
    by (simp add: findMany_def db_world_def account_A1_def)
  show ?thesis
    using j d
      C3_reuse_unchanged [where now = 50000 and now' = 50000 and env = example_env
        and fetch = provider_grants and token = "token_A1 (Some ''R1'') None"
        and w = "db_world (Some ''R1'')" and profile = None and uid = "''u1''"
        and ga = "account_A1 (Some ''R1'')" and rest = "[]" and e = 100 and sess = session0]
    by simp
qed

text \<open>The claim as written promises status ok for every token that has not expired.
  The token below is what the \<^verbatim>\<open>jwt\<close> callback itself returns for a successful
  refresh after a failed one; at \<^verbatim>\<open>now = 200\<close> it has not expired, and it is
  returned with its error flag.\<close>

theorem C3_counterexample:
  "returned (jwt example_env provider_grants 150000 150000 empty_world
              (token_A1 (Some ''R1'') (Some RefreshAccessTokenError)) None None)
     = Some (token_A2 (Some RefreshAccessTokenError))
   \<and> now_before 200000 (expires_at (token_A2 (Some RefreshAccessTokenError)))
   \<and> map_option error
        (returned (jwt example_env provider_grants 200000 200000 empty_world
                    (token_A2 (Some RefreshAccessTokenError)) None None))
     = Some (Some RefreshAccessTokenError)"
  by (simp add: jwt_def returned_def token_A1_def token_A2_def provider_grants_def
      new_expires_at_def)

subsection \<open>Failed refresh\<close>

text \<open>
  Claim C4. When the access token has expired (\<open>now\<close> is not before the expiry), the
  refresh token is non-empty and the exchange fails (rejected request or non-ok response),
  the result is the input with the error flag set and nothing else changed. JWT strategy:
  the returned token is the input token with the flag. Database strategy: whenever the
  callback has made the exchange (it has sent its request) and the exchange fails, the
  returned session is the input session with the flag and the account table is as it
  was; this is stated once with the expiry test of the callback itself and once with the
  premises of the JWT strategy.
\<close>

theorem C4_refresh_failure:
  "(\<not> now_before now (expires_at token) \<and> truthy (refresh_token token)
      \<and> \<not> succeeded (fetch (token_request env (param_string (refresh_token token))))
    \<longrightarrow> returned (jwt env fetch now now' w token None profile)
          = Some (token\<lparr>error := Some RefreshAccessTokenError\<rparr>))
   \<and> (findMany uid (accounts w) = ga # rest \<and> expired_before (expires_at ga) now
      \<and> \<not> succeeded (fetch (token_request env (param_string (refresh_token ga))))
    \<longrightarrow> returned (session env fetch now now' w sess uid)
          = Some (sess\<lparr>session_error := Some RefreshAccessTokenError\<rparr>)
        \<and> accounts (snd (session env fetch now now' w sess uid)) = accounts w)
   \<and> (findMany uid (accounts w) = ga # rest
      \<and> \<not> now_before now (expires_at ga) \<and> truthy (refresh_token ga)
      \<and> calls w (session env fetch now now' w sess uid) = 1
      \<and> \<not> succeeded (fetch (token_request env (param_string (refresh_token ga))))
    \<longrightarrow> returned (session env fetch now now' w sess uid)
          = Some (sess\<lparr>session_error := Some RefreshAccessTokenError\<rparr>)
        \<and> accounts (snd (session env fetch now now' w sess uid)) = accounts w)"
proof -
  have db: "returned (session env fetch now now' w sess uid)
          = Some (sess\<lparr>session_error := Some RefreshAccessTokenError\<rparr>)
        \<and> accounts (snd (session env fetch now now' w sess uid)) = accounts w"
    if row: "findMany uid (accounts w) = ga # rest"
      and expired: "expired_before (expires_at ga) now"
      and failed: "\<not> succeeded (fetch (token_request env (param_string (refresh_token ga))))"
  proof -
    have r: "session env fetch now now' w sess uid =
       (Inr (sess\<lparr>session_error := Some RefreshAccessTokenError\<rparr>),
        log_error (caught (fetch (token_request env (param_string (refresh_token ga)))))
          (send (token_request env (param_string (refresh_token ga))) w))"
      using row expired failed
      by (simp add: session_failure [where fetch = fetch and ga = ga])
    show ?thesis
      by (simp add: r returned_def log_error_def send_def)
  qed
  have made: "expired_before (expires_at ga) now"
    if row: "findMany uid (accounts w) = ga # rest"
      and one: "calls w (session env fetch now now' w sess uid) = 1"
  proof (rule ccontr)
    assume "\<not> expired_before (expires_at ga) now"
    with row have "calls w (session env fetch now now' w sess uid) = 0"
      by (simp add: session_calls)
    with one show False
      by simp
  qed
  show ?thesis
  proof (intro conjI impI)
    assume "\<not> now_before now (expires_at token) \<and> truthy (refresh_token token)
        \<and> \<not> succeeded (fetch (token_request env (param_string (refresh_token token))))"
    then show "returned (jwt env fetch now now' w token None profile)
            = Some (token\<lparr>error := Some RefreshAccessTokenError\<rparr>)"
      by (simp add: jwt_failure returned_def)
  next
    assume h: "findMany uid (accounts w) = ga # rest \<and> expired_before (expires_at ga) now
        \<and> \<not> succeeded (fetch (token_request env (param_string (refresh_token ga))))"
    show "returned (session env fetch now now' w sess uid)
            = Some (sess\<lparr>session_error := Some RefreshAccessTokenError\<rparr>)"
      using h db by blast
    show "accounts (snd (session env fetch now now' w sess uid)) = accounts w"
      using h db by blast
  next
    assume h: "findMany uid (accounts w) = ga # rest
        \<and> \<not> now_before now (expires_at ga) \<and> truthy (refresh_token ga)
        \<and> calls w (session env fetch now now' w sess uid) = 1
        \<and> \<not> succeeded (fetch (token_request env (param_string (refresh_token ga))))"
    then have expired: "expired_before (expires_at ga) now"
      using made by blast
    show "returned (session env fetch now now' w sess uid)
            = Some (sess\<lparr>session_error := Some RefreshAccessTokenError\<rparr>)"
      using h expired db by blast
    show "accounts (snd (session env fetch now now' w sess uid)) = accounts w"
      using h expired db by blast
  qed
qed

text \<open>The scenario \<^verbatim>\<open>{access = "A1", expiry = 100, refresh = "R1"}\<close> at
  \<^verbatim>\<open>now = 150\<close> with the answer HTTP 400, in both strategies.\<close>

theorem C4_witness:
  "(\<not> now_before 150000 (expires_at (token_A1 (Some ''R1'') None))
      \<and> truthy (refresh_token (token_A1 (Some ''R1'') None))
      \<and> \<not> succeeded (provider_rejects (token_request example_env
            (param_string (refresh_token (token_A1 (Some ''R1'') None))))))
   \<and> returned (jwt example_env provider_rejects 150000 150000 (db_world (Some ''R1''))
                 (token_A1 (Some ''R1'') None) None None)
      = Some (token_A1 (Some ''R1'') (Some RefreshAccessTokenError))
   \<and> (findMany ''u1'' (accounts (db_world (Some ''R1''))) = [account_A1 (Some ''R1'')]
      \<and> expired_before (expires_at (account_A1 (Some ''R1''))) 150000
      \<and> \<not> now_before 150000 (expires_at (account_A1 (Some ''R1'')))
      \<and> truthy (refresh_token (account_A1 (Some ''R1'')))
      \<and> calls (db_world (Some ''R1''))
           (session example_env provider_rejects 150000 150000 (db_world (Some ''R1''))
              session0 ''u1'') = 1
      \<and> \<not> succeeded (provider_rejects (token_request example_env
            (param_string (refresh_token (account_A1 (Some ''R1'')))))))
   \<and> returned (session example_env provider_rejects 150000 150000 (db_world (Some ''R1''))
                 session0 ''u1'')
      = Some (session0\<lparr>session_error := Some RefreshAccessTokenError\<rparr>)
   \<and> accounts (snd (session example_env provider_rejects 150000 150000
                 (db_world (Some ''R1'')) session0 ''u1'')) = [account_A1 (Some ''R1'')]"
proof -
  have j: "\<not> now_before 150000 (expires_at (token_A1 (Some ''R1'') None))
      \<and> truthy (refresh_token (token_A1 (Some ''R1'') None))
      \<and> \<not> succeeded (provider_rejects (token_request example_env
            (param_string (refresh_token (token_A1 (Some ''R1'') None)))))"
    by (simp add: token_A1_def provider_rejects_def)
  have d: "findMany ''u1'' (accounts (db_world (Some ''R1''))) = [account_A1 (Some ''R1'')]
      \<and> expired_before (expires_at (account_A1 (Some ''R1''))) 150000
      \<and> \<not> now_before 150000 (expires_at (account_A1 (Some ''R1'')))
      \<and> truthy (refresh_token (account_A1 (Some ''R1'')))
      \<and> \<not> succeeded (provider_rejects (token_request example_env
            (param_string (refresh_token (account_A1 (Some ''R1''))))))"
    by (simp add: findMany_def db_world_def account_A1_def provider_rejects_def)
  have c: "calls (db_world (Some ''R1''))
           (session example_env provider_rejects 150000 150000 (db_world (Some ''R1''))
              session0 ''u1'') = 1"
    by (simp add: session_def calls_def send_def log_error_def findMany_def db_world_def
        account_A1_def provider_rejects_def)
  show ?thesis
    using j d c
      C4_refresh_failure [where now = 150000 and now' = 150000 and env = example_env
        and fetch = provider_rejects and token = "token_A1 (Some ''R1'') None"
        and w = "db_world (Some ''R1'')" and profile = None and uid = "''u1''"
        and ga = "account_A1 (Some ''R1'')" and rest = "[]" and sess = session0]
    by (simp add: token_A1_def db_world_def)
qed

text \<open>At the instant of expiry itself the two strategies differ. The row below expires at
  100 seconds; at \<^verbatim>\<open>Date.now() = 100000\<close> the test of the \<^verbatim>\<open>jwt\<close> callback counts
  it as expired, while the strict test of the \<^verbatim>\<open>session\<close> callback does not: it makes
  no exchange, so none can fail, and the session comes back as it went in.\<close>

lemma session_at_expiry_instant:
  "\<not> now_before 100000 (expires_at (account_A1 (Some ''R1'')))
   \<and> session example_env provider_rejects 100000 100000 (db_world (Some ''R1'')) session0 ''u1''
      = (Inr session0, db_world (Some ''R1''))"
  by (simp add: session_def findMany_def db_world_def account_A1_def)

subsection \<open>Rotation of the refresh token\<close>

text \<open>
  Claim C5. After a successful exchange the refresh token of the result is the one the
  response supplies, and the one of the input when the response supplies none: in the JWT
  strategy on the returned token, in the database strategy on the row read next time.
\<close>

theorem C5_rotation:
  "(\<not> now_before now (expires_at token) \<and> truthy (refresh_token token)
      \<and> fetch (token_request env (param_string (refresh_token token))) = Success t
    \<longrightarrow> map_option refresh_token (returned (jwt env fetch now now' w token None profile))
          = Some (case response_refresh_token t of
                    None \<Rightarrow> refresh_token token
                  | Some rotated \<Rightarrow> Some rotated))
   \<and> (findMany uid (accounts w) = ga # rest \<and> expired_before (expires_at ga) now
      \<and> fetch (token_request env (param_string (refresh_token ga))) = Success t
    \<longrightarrow> map refresh_token
          (take 1 (findMany uid (accounts (snd (session env fetch now now' w sess uid)))))
          = [case response_refresh_token t of
               None \<Rightarrow> refresh_token ga
             | Some rotated \<Rightarrow> Some rotated])"
proof (intro conjI impI)
  assume "\<not> now_before now (expires_at token) \<and> truthy (refresh_token token)
      \<and> fetch (token_request env (param_string (refresh_token token))) = Success t"
  then show "map_option refresh_token (returned (jwt env fetch now now' w token None profile))
          = Some (case response_refresh_token t of
                    None \<Rightarrow> refresh_token token
                  | Some rotated \<Rightarrow> Some rotated)"
    by (cases "response_refresh_token t") (simp_all add: jwt_success returned_def)
next
  assume "findMany uid (accounts w) = ga # rest \<and> expired_before (expires_at ga) now
      \<and> fetch (token_request env (param_string (refresh_token ga))) = Success t"
  then show "map refresh_token
          (take 1 (findMany uid (accounts (snd (session env fetch now now' w sess uid)))))
          = [case response_refresh_token t of
               None \<Rightarrow> refresh_token ga
             | Some rotated \<Rightarrow> Some rotated]"
    by (cases "response_refresh_token t")
       (simp_all add: session_reloads_refreshed_row [where fetch = fetch])
qed


text \<open>A response without a rotated refresh token in the JWT strategy, and one with the
  rotated token \<^verbatim>\<open>"R2"\<close> in the database strategy.\<close>

theorem C5_witness:
  "(\<not> now_before 150000 (expires_at (token_A1 (Some ''R1'') None))
      \<and> truthy (refresh_token (token_A1 (Some ''R1'') None))
      \<and> provider_grants (token_request example_env
            (param_string (refresh_token (token_A1 (Some ''R1'') None))))
          = Success \<lparr>response_access_token = ''A2'', expires_in = 3600,
                     response_refresh_token = None\<rparr>)
   \<and> map_option refresh_token
        (returned (jwt example_env provider_grants 150000 150000 empty_world
                    (token_A1 (Some ''R1'') None) None None)) = Some (Some ''R1'')
   \<and> (findMany ''u1'' (accounts (db_world (Some ''R1''))) = [account_A1 (Some ''R1'')]
      \<and> expired_before (expires_at (account_A1 (Some ''R1''))) 150000
      \<and> provider_rotates (token_request example_env
            (param_string (refresh_token (account_A1 (Some ''R1'')))))
          = Success \<lparr>response_access_token = ''A2'', expires_in = 3600,
                     response_refresh_token = Some ''R2''\<rparr>)
   \<and> map refresh_token
        (take 1 (findMany ''u1'' (accounts (snd (session example_env provider_rotates
                    150000 150000 (db_world (Some ''R1'')) session0 ''u1'')))))
      = [Some ''R2'']"
proof -
  let ?kept = "\<lparr>response_access_token = ''A2'', expires_in = 3600,
                response_refresh_token = None\<rparr>"
  let ?rotated = "\<lparr>response_access_token = ''A2'', expires_in = 3600,
                   response_refresh_token = Some ''R2''\<rparr>"
  have j: "\<not> now_before 150000 (expires_at (token_A1 (Some ''R1'') None))
      \<and> truthy (refresh_token (token_A1 (Some ''R1'') None))
      \<and> provider_grants (token_request example_env
            (param_string (refresh_token (token_A1 (Some ''R1'') None)))) = Success ?kept"
    by (simp add: token_A1_def provider_grants_def)
  have d: "findMany ''u1'' (accounts (db_world (Some ''R1''))) = [account_A1 (Some ''R1'')]
      \<and> expired_before (expires_at (account_A1 (Some ''R1''))) 150000
      \<and> provider_rotates (token_request example_env
            (param_string (refresh_token (account_A1 (Some ''R1''))))) = Success ?rotated"
    by (simp add: findMany_def db_world_def account_A1_def provider_rotates_def)
  have kept: "map_option refresh_token
        (returned (jwt example_env provider_grants 150000 150000 empty_world
                    (token_A1 (Some ''R1'') None) None None)) = Some (Some ''R1'')"
    using j
      C5_rotation [where now = 150000 and now' = 150000 and env = example_env
        and fetch = provider_grants and t = "?kept" and token = "token_A1 (Some ''R1'') None"
        and w = empty_world and profile = None]
    by (simp add: token_A1_def)
  have rotated: "map refresh_token
        (take 1 (findMany ''u1'' (accounts (snd (session example_env provider_rotates
                    150000 150000 (db_world (Some ''R1'')) session0 ''u1'')))))
      = [Some ''R2'']"
    using d
      C5_rotation [where now = 150000 and now' = 150000 and env = example_env
        and fetch = provider_rotates and t = "?rotated" and w = "db_world (Some ''R1'')"
        and uid = "''u1''" and ga = "account_A1 (Some ''R1'')" and rest = "[]"
        and sess = session0]
    by simp
  show ?thesis
    using j d kept rotated by simp
qed

subsection \<open>Sign-in\<close>

text \<open>
  Claim C6. On the first call after sign-in (an \<^verbatim>\<open>account\<close> is passed), the \<^verbatim>\<open>jwt\<close>
  callback returns a token holding the access token, expiry and refresh token of that
  account as they are, without an error flag, and sends no request: the world is as it
  was.
\<close>

theorem C6_bootstrap:
  "map_option access_token (returned (jwt env fetch now now' w token (Some a) profile))
     = Some (access_token a)
   \<and> map_option expires_at (returned (jwt env fetch now now' w token (Some a) profile))
     = Some (expires_at a)
   \<and> map_option refresh_token (returned (jwt env fetch now now' w token (Some a) profile))
     = Some (refresh_token a)
   \<and> map_option error (returned (jwt env fetch now now' w token (Some a) profile))
     = Some None
   \<and> snd (jwt env fetch now now' w token (Some a) profile) = w
   \<and> calls w (jwt env fetch now now' w token (Some a) profile) = 0"
  by (simp add: jwt_bootstrap returned_def calls_def)

subsection \<open>Requests sent without a refresh token\<close>

text \<open>
  Claim C7 asks for no request when the refresh token is missing. The \<^verbatim>\<open>jwt\<close>
  callback checks for it before the exchange; the \<^verbatim>\<open>session\<close> callback of the
  database strategy does not, and for the expired row
  \<^verbatim>\<open>{access = "A1", expiry = 100, refresh = null}\<close> at \<^verbatim>\<open>now = 150\<close> it sends one
  request, with \<^verbatim>\<open>refresh_token=null\<close> in its body.
\<close>

theorem C7_session_sends_without_refresh_token:
  "refresh_token (account_A1 None) = None
   \<and> calls (db_world None)
       (session example_env provider_rejects 150000 150000 (db_world None) session0 ''u1'') = 1
   \<and> requests (snd (session example_env provider_rejects 150000 150000 (db_world None)
                      session0 ''u1''))
     = [token_request example_env ''null'']
   \<and> calls empty_world
       (jwt example_env provider_rejects 150000 150000 empty_world (token_A1 None None)
          None None) = 0"
  by (simp add: session_def jwt_def calls_def send_def log_error_def findMany_def
      db_world_def empty_world_def account_A1_def token_A1_def provider_rejects_def)

subsection \<open>Writes to the account table\<close>

text \<open>
  Claim C8, as amended. The \<^verbatim>\<open>jwt\<close> callback never writes to the store: it only
  returns the token. The \<^verbatim>\<open>session\<close> callback of the database strategy writes to
  the account table itself: whenever the row it read is expired and the exchange succeeds,
  the table it leaves is the update of that row with the new access token, expiry and
  refresh token, so that the row read next time carries them; and in no other case is the
  table changed.
\<close>

theorem C8_store_writes:
  "accounts (snd (jwt env fetch now now' w token account profile)) = accounts w
   \<and> (findMany uid (accounts w) = ga # rest \<and> expired_before (expires_at ga) now
      \<and> fetch (token_request env (param_string (refresh_token ga))) = Success t
    \<longrightarrow> accounts (snd (session env fetch now now' w sess uid))
          = update (providerAccountId ga) t now' (refresh_token ga) (accounts w)
        \<and> findMany uid (accounts (snd (session env fetch now now' w sess uid)))
          = ga\<lparr>access_token := Some (response_access_token t),
               expires_at := Some (now' div 1000 + expires_in t),
               refresh_token := nullish (response_refresh_token t) (refresh_token ga)\<rparr>
            # update (providerAccountId ga) t now' (refresh_token ga) rest)
   \<and> (accounts (snd (session env fetch now now' w sess uid)) \<noteq> accounts w
    \<longrightarrow> (case findMany uid (accounts w) of
           [] \<Rightarrow> False
         | ga # _ \<Rightarrow>
             expired_before (expires_at ga) now
             \<and> (case fetch (token_request env (param_string (refresh_token ga))) of
                  Success t \<Rightarrow>
                    accounts (snd (session env fetch now now' w sess uid))
                      = update (providerAccountId ga) t now' (refresh_token ga) (accounts w)
                | _ \<Rightarrow> False)))"
proof (intro conjI impI)
  show "accounts (snd (jwt env fetch now now' w token account profile)) = accounts w"
    by (simp add: jwt_def send_def log_error_def Let_def split: option.splits exchange.splits)
next
  assume h: "findMany uid (accounts w) = ga # rest \<and> expired_before (expires_at ga) now
      \<and> fetch (token_request env (param_string (refresh_token ga))) = Success t"
  then show "accounts (snd (session env fetch now now' w sess uid))
          = update (providerAccountId ga) t now' (refresh_token ga) (accounts w)"
    by (simp add: session_success [where fetch = fetch and ga = ga])
  from h show "findMany uid (accounts (snd (session env fetch now now' w sess uid)))
          = ga\<lparr>access_token := Some (response_access_token t),
               expires_at := Some (now' div 1000 + expires_in t),
               refresh_token := nullish (response_refresh_token t) (refresh_token ga)\<rparr>
            # update (providerAccountId ga) t now' (refresh_token ga) rest"
    by (simp add: session_reloads_refreshed_row [where fetch = fetch])
next
  assume changed: "accounts (snd (session env fetch now now' w sess uid)) \<noteq> accounts w"
  show "case findMany uid (accounts w) of
           [] \<Rightarrow> False
         | ga # _ \<Rightarrow>
             expired_before (expires_at ga) now
             \<and> (case fetch (token_request env (param_string (refresh_token ga))) of
                  Success t \<Rightarrow>
                    accounts (snd (session env fetch now now' w sess uid))
                      = update (providerAccountId ga) t now' (refresh_token ga) (accounts w)
                | _ \<Rightarrow> False)"
  proof (cases "findMany uid (accounts w)")
    case Nil
    with changed show ?thesis
      by (simp add: session_no_row)
  next
    case (Cons row others)
    show ?thesis
    proof (cases "expired_before (expires_at row) now")
      case False
      with changed Cons show ?thesis
        by (simp add: session_reuse)
    next
      case True
      show ?thesis
      proof (cases "fetch (token_request env (param_string (refresh_token row)))")
        case (Success t')
        then show ?thesis
          by (simp add: Cons True session_success [where fetch = fetch, OF Cons True Success])
      next
        case TransportError
        with changed Cons True show ?thesis
          by (simp add: session_failure [where fetch = fetch and ga = row] log_error_def
              send_def)
      next
        case (NonSuccess p)
        with changed Cons True show ?thesis
          by (simp add: session_failure [where fetch = fetch and ga = row] log_error_def
              send_def)
      qed
    qed
  qed
qed

text \<open>The successful refresh of the scenario, in the database strategy: the table is
  changed, and what it holds is the refreshed row.\<close>

theorem C8_witness:
  "(findMany ''u1'' (accounts (db_world (Some ''R1''))) = [account_A1 (Some ''R1'')]
      \<and> expired_before (expires_at (account_A1 (Some ''R1''))) 150000
      \<and> provider_grants (token_request example_env
            (param_string (refresh_token (account_A1 (Some ''R1'')))))
          = Success \<lparr>response_access_token = ''A2'', expires_in = 3600,
                     response_refresh_token = None\<rparr>)
   \<and> accounts (snd (session example_env provider_grants 150000 150000 (db_world (Some ''R1''))
                    session0 ''u1'')) \<noteq> accounts (db_world (Some ''R1''))
   \<and> accounts (snd (session example_env provider_grants 150000 150000 (db_world (Some ''R1''))
                    session0 ''u1''))
     = update ''g1'' \<lparr>response_access_token = ''A2'', expires_in = 3600,
                       response_refresh_token = None\<rparr> 150000 (Some ''R1'')
         (accounts (db_world (Some ''R1'')))
   \<and> findMany ''u1'' (accounts (snd (session example_env provider_grants 150000 150000
                    (db_world (Some ''R1'')) session0 ''u1''))) = [account_A2]"
proof -
  let ?t = "\<lparr>response_access_token = ''A2'', expires_in = 3600,
             response_refresh_token = None\<rparr>"
  let ?r = "session example_env provider_grants 150000 150000 (db_world (Some ''R1''))
              session0 ''u1''"
  have d: "findMany ''u1'' (accounts (db_world (Some ''R1''))) = [account_A1 (Some ''R1'')]
      \<and> expired_before (expires_at (account_A1 (Some ''R1''))) 150000
      \<and> provider_grants (token_request example_env
            (param_string (refresh_token (account_A1 (Some ''R1''))))) = Success ?t"
    by (simp add: findMany_def db_world_def account_A1_def provider_grants_def)
  note at_scenario =
    C8_store_writes [where now = 150000 and now' = 150000 and env = example_env
      and fetch = provider_grants and t = "?t" and w = "db_world (Some ''R1'')"
      and uid = "''u1''" and ga = "account_A1 (Some ''R1'')" and rest = "[]"
      and sess = session0 and token = "token_A1 (Some ''R1'') None" and account = None
      and profile = None]
  note written = at_scenario [THEN conjunct2, THEN conjunct1, THEN mp, OF d]
  have key: "providerAccountId (account_A1 (Some ''R1'')) = ''g1''"
    and old: "refresh_token (account_A1 (Some ''R1'')) = Some ''R1''"
    by (simp_all add: account_A1_def)
  have table: "accounts (snd ?r)
     = update ''g1'' ?t 150000 (Some ''R1'') (accounts (db_world (Some ''R1'')))"
    using written [THEN conjunct1] by (simp only: key old)
  have row: "findMany ''u1'' (accounts (snd ?r)) = [account_A2]"
    using written [THEN conjunct2] by (simp add: account_A1_def account_A2_def update_def)
  have "update ''g1'' ?t 150000 (Some ''R1'') (accounts (db_world (Some ''R1'')))
          \<noteq> accounts (db_world (Some ''R1''))"
    by (simp add: update_def db_world_def account_A1_def)
  then have changed: "accounts (snd ?r) \<noteq> accounts (db_world (Some ''R1''))"
    by (simp add: table)
  show ?thesis
    by (intro conjI) (rule d [THEN conjunct1], rule d [THEN conjunct2, THEN conjunct1],
        rule d [THEN conjunct2, THEN conjunct2], rule changed, rule table, rule row)
qed

text \<open>The claim as written says that no evaluation writes to the store. In the same
  scenario the \<^verbatim>\<open>session\<close> callback has replaced the stored row by the time it
  returns.\<close>

theorem C8_counterexample:
  "accounts (db_world (Some ''R1'')) = [account_A1 (Some ''R1'')]
   \<and> accounts (snd (session example_env provider_grants 150000 150000 (db_world (Some ''R1''))
                      session0 ''u1'')) = [account_A2]
   \<and> account_A2 \<noteq> account_A1 (Some ''R1'')"
  by (simp add: session_def findMany_def update_def send_def new_expires_at_def db_world_def
      account_A1_def account_A2_def provider_grants_def)

subsection \<open>No account row\<close>

text \<open>
  Claim C9. In the database strategy, when the table has no \<^verbatim>\<open>google\<close> row for the
  user, the \<^verbatim>\<open>session\<close> callback reads \<^verbatim>\<open>expires_at\<close> of the first element of an
  empty result: it throws a \<^verbatim>\<open>TypeError\<close> and returns no session, having sent and
  written nothing.
\<close>

theorem C9_no_account_row_throws:
  assumes "findMany uid (accounts w) = []"
  shows "thrown (session env fetch now now' w sess uid)
           = Some (TypeError ''Cannot read properties of undefined (reading expires_at)'')
         \<and> returned (session env fetch now now' w sess uid) = None
         \<and> snd (session env fetch now now' w sess uid) = w"
  by (simp add: session_no_row [OF assms] thrown_def returned_def)

text \<open>A table without any row.\<close>

theorem C9_witness:
  "findMany ''u1'' (accounts empty_world) = []
   \<and> thrown (session example_env provider_grants 150000 150000 empty_world session0 ''u1'')
      = Some (TypeError ''Cannot read properties of undefined (reading expires_at)'')
   \<and> returned (session example_env provider_grants 150000 150000 empty_world session0 ''u1'')
      = None"
proof -
  have none: "findMany ''u1'' (accounts empty_world) = []"
    by (simp add: findMany_def empty_world_def)
  show ?thesis
    using none
      C9_no_account_row_throws [OF none, where env = example_env and fetch = provider_grants
        and now = 150000 and now' = 150000 and sess = session0]
    by simp
qed

subsection \<open>The session returned by the database strategy\<close>

text \<open>
  Claim C10. In the database strategy a returned session is the input session, or the
  input session with the error flag set; it holds nothing of the response. After a
  successful refresh it is the input session itself, and the account table differs from
  the old one only in the rows with the key of the row read, which get the new access
  token, expiry and refresh token.
\<close>

theorem C10_session_unchanged:
  "(returned (session env fetch now now' w sess uid) = Some s'
    \<longrightarrow> s' = sess \<or> s' = sess\<lparr>session_error := Some RefreshAccessTokenError\<rparr>)
   \<and> (findMany uid (accounts w) = ga # rest \<and> expired_before (expires_at ga) now
      \<and> fetch (token_request env (param_string (refresh_token ga))) = Success t
    \<longrightarrow> returned (session env fetch now now' w sess uid) = Some sess
        \<and> accounts (snd (session env fetch now now' w sess uid))
          = map (\<lambda>a. if provider a = ''google'' \<and> providerAccountId a = providerAccountId ga
                     then a\<lparr>access_token := Some (response_access_token t),
                            expires_at := Some (now' div 1000 + expires_in t),
                            refresh_token :=
                              nullish (response_refresh_token t) (refresh_token ga)\<rparr>
                     else a) (accounts w))"
proof (intro conjI impI)
  assume "returned (session env fetch now now' w sess uid) = Some s'"
  then show "s' = sess \<or> s' = sess\<lparr>session_error := Some RefreshAccessTokenError\<rparr>"
    by (auto simp add: session_def returned_def Let_def
        split: list.splits if_splits exchange.splits)
next
  assume h: "findMany uid (accounts w) = ga # rest \<and> expired_before (expires_at ga) now
      \<and> fetch (token_request env (param_string (refresh_token ga))) = Success t"
  then have r: "session env fetch now now' w sess uid =
     (Inr sess,
      (send (token_request env (param_string (refresh_token ga))) w)
        \<lparr>accounts := update (providerAccountId ga) t now' (refresh_token ga) (accounts w)\<rparr>)"
    by (simp add: session_success [where fetch = fetch and ga = ga])
  show "returned (session env fetch now now' w sess uid) = Some sess"
    by (simp add: r returned_def)
  show "accounts (snd (session env fetch now now' w sess uid))
          = map (\<lambda>a. if provider a = ''google'' \<and> providerAccountId a = providerAccountId ga
                     then a\<lparr>access_token := Some (response_access_token t),
                            expires_at := Some (now' div 1000 + expires_in t),
                            refresh_token :=
                              nullish (response_refresh_token t) (refresh_token ga)\<rparr>
                     else a) (accounts w)"
    by (simp add: r update_def new_expires_at_def)
qed

text \<open>The successful refresh of the scenario: the session comes back as it went in, and
  the table holds the refreshed row.\<close>

theorem C10_witness:
  "returned (session example_env provider_grants 150000 150000 (db_world (Some ''R1''))
               session0 ''u1'') = Some session0
   \<and> (findMany ''u1'' (accounts (db_world (Some ''R1''))) = [account_A1 (Some ''R1'')]
      \<and> expired_before (expires_at (account_A1 (Some ''R1''))) 150000
      \<and> provider_grants (token_request example_env
            (param_string (refresh_token (account_A1 (Some ''R1'')))))
          = Success \<lparr>response_access_token = ''A2'', expires_in = 3600,
                     response_refresh_token = None\<rparr>)
   \<and> accounts (snd (session example_env provider_grants 150000 150000 (db_world (Some ''R1''))
                      session0 ''u1'')) = [account_A2]"
proof -
  let ?t = "\<lparr>response_access_token = ''A2'', expires_in = 3600,
             response_refresh_token = None\<rparr>"
  have d: "findMany ''u1'' (accounts (db_world (Some ''R1''))) = [account_A1 (Some ''R1'')]
      \<and> expired_before (expires_at (account_A1 (Some ''R1''))) 150000
      \<and> provider_grants (token_request example_env
            (param_string (refresh_token (account_A1 (Some ''R1''))))) = Success ?t"
    by (simp add: findMany_def db_world_def account_A1_def provider_grants_def)
  show ?thesis
    using d
      C10_session_unchanged [where now = 150000 and now' = 150000 and env = example_env
        and fetch = provider_grants and t = "?t" and w = "db_world (Some ''R1'')"
        and uid = "''u1''" and ga = "account_A1 (Some ''R1'')" and rest = "[]"
        and sess = session0 and s' = session0]
    by (simp add: db_world_def account_A1_def account_A2_def)
qed


end
